theory Spec2Isabelle
  imports Complex_Main
begin

section \<open>JavaScript values\<close>

text \<open>
  A JavaScript number is an IEEE 754 double. Every finite double denotes one rational
  number and the comparison of two finite doubles is the comparison of the numbers they
  denote, so a finite double is modelled by the real it denotes (\<open>-0\<close> and \<open>+0\<close> are
  one value here, as they are for \<open><=\<close> and for truthiness). The three values that are
  not finite are kept apart.
\<close>

datatype jsnum = NaN | NegInf | Fin real | PosInf

text \<open>The \<open><=\<close> of two numbers: every comparison with \<open>NaN\<close> is false.\<close>

fun js_le :: "jsnum \<Rightarrow> jsnum \<Rightarrow> bool" where
  "js_le NaN y = False"
| "js_le x NaN = False"
| "js_le NegInf y = True"
| "js_le (Fin x) NegInf = False"
| "js_le (Fin x) (Fin y) = (x \<le> y)"
| "js_le (Fin x) PosInf = True"
| "js_le PosInf NegInf = False"
| "js_le PosInf (Fin y) = False"
| "js_le PosInf PosInf = True"

text \<open>
  The \<open>pm25\<close> that reaches the frontend is a field of a parsed JSON object: a number,
  \<open>null\<close>, or \<open>undefined\<close> when the field is absent.
\<close>

datatype jsval = JUndefined | JNull | JNum jsnum

text \<open>\<open>ToNumber\<close>, which \<open><=\<close> applies to an operand that is not a number.\<close>

fun toNumber :: "jsval \<Rightarrow> jsnum" where
  "toNumber JUndefined = NaN"
| "toNumber JNull = Fin 0"
| "toNumber (JNum x) = x"

text \<open>\<open>value <= c\<close> for a numeric literal \<open>c\<close>.\<close>

definition js_lte :: "jsval \<Rightarrow> real \<Rightarrow> bool" where
  "js_lte v c = js_le (toNumber v) (Fin c)"

text \<open>\<open>ToBoolean\<close>: \<open>undefined\<close>, \<open>null\<close>, \<open>NaN\<close> and zero are falsy.\<close>

fun truthy :: "jsval \<Rightarrow> bool" where
  "truthy JUndefined = False"
| "truthy JNull = False"
| "truthy (JNum NaN) = False"
| "truthy (JNum (Fin x)) = (x \<noteq> 0)"
| "truthy (JNum NegInf) = True"
| "truthy (JNum PosInf) = True"

text \<open>A string-valued field (\<open>None\<close>: \<open>null\<close> or absent); the empty string is falsy.\<close>

fun truthy_str :: "string option \<Rightarrow> bool" where
  "truthy_str None = False"
| "truthy_str (Some s) = (s \<noteq> [])"

section \<open>The category classifier (api/airquality.js)\<close>

record category_info =
  category :: string
  color :: string
  textColor :: string
  description :: string

definition getAirQualityCategory :: "jsval \<Rightarrow> category_info" where
  "getAirQualityCategory pm25 =
     (if pm25 = JNull \<or> pm25 = JUndefined then
        \<lparr>category = ''Unknown'', color = ''bg-gray-500'', textColor = ''text-white'',
         description = ''No data available''\<rparr>
      else if js_lte pm25 15 then
        \<lparr>category = ''Good'', color = ''bg-green-500'', textColor = ''text-white'',
         description = ''Air quality is satisfactory''\<rparr>
      else if js_lte pm25 25 then
        \<lparr>category = ''Moderate'', color = ''bg-yellow-500'', textColor = ''text-black'',
         description = ''Acceptable for most people''\<rparr>
      else if js_lte pm25 37.5 then
        \<lparr>category = ''Unhealthy for Sensitive'', color = ''bg-orange-500'',
         textColor = ''text-white'',
         description = ''Sensitive groups may experience symptoms''\<rparr>
      else if js_lte pm25 75 then
        \<lparr>category = ''Unhealthy'', color = ''bg-red-500'', textColor = ''text-white'',
         description = ''Everyone may experience health effects''\<rparr>
      else
        \<lparr>category = ''Very Unhealthy'', color = ''bg-purple-600'', textColor = ''text-white'',
         description = ''Health alert: everyone may experience serious effects''\<rparr>)"

text \<open>
  The labels of the five numeric bands, in the order of increasing severity, and the rank
  of a label in that order. The band the specification calls "Unhealthy for Sensitive
  Groups" carries the label \<open>Unhealthy for Sensitive\<close> in the code.
\<close>

definition numeric_bands :: "string list" where
  "numeric_bands =
     [''Good'', ''Moderate'', ''Unhealthy for Sensitive'', ''Unhealthy'', ''Very Unhealthy'']"

definition severity_rank :: "string \<Rightarrow> nat option" where
  "severity_rank l =
     (if l = ''Good'' then Some 0
      else if l = ''Moderate'' then Some 1
      else if l = ''Unhealthy for Sensitive'' then Some 2
      else if l = ''Unhealthy'' then Some 3
      else if l = ''Very Unhealthy'' then Some 4
      else None)"

section \<open>The map marker (components/MapView.jsx)\<close>

text \<open>
  The object the \<open>/air-quality\<close> endpoint answers with, as the frontend reads it. A
  string field is \<open>None\<close> when it is \<open>null\<close> or absent.
\<close>

record air_quality_data =
  station_name :: "string option"
  distance_km :: jsval
  latitude :: jsval
  longitude :: jsval
  pm25 :: jsval
  pm10 :: jsval
  temperature_celsius :: jsval
  relative_humidity :: jsval
  wind_speed :: jsval
  last_updated :: "string option"
  weather_time :: "string option"
  warning :: "string option"
  message :: "string option"

text \<open>
  \<open>createCustomIcon\<close> builds a Leaflet \<open>divIcon\<close> whose class, size and anchor are fixed;
  the background colour is the only part that varies, and the only part kept here.
\<close>

datatype icon = DivIcon string

definition createCustomIcon :: "string \<Rightarrow> icon" where
  "createCustomIcon c = DivIcon c"

definition getMarkerIcon :: "air_quality_data option \<Rightarrow> icon" where
  "getMarkerIcon airQualityData =
     (case airQualityData of
        None \<Rightarrow> createCustomIcon ''#6b7280''
      | Some d \<Rightarrow>
          if \<not> truthy (pm25 d) then createCustomIcon ''#6b7280''
          else createCustomIcon
            (if js_lte (pm25 d) 15 then ''#10b981''
             else if js_lte (pm25 d) 25 then ''#f59e0b''
             else if js_lte (pm25 d) 37.5 then ''#f97316''
             else if js_lte (pm25 d) 75 then ''#ef4444''
             else ''#8b5cf6''))"

text \<open>The example answer of the backend's README.\<close>

definition example_response :: air_quality_data where
  "example_response =
     \<lparr>station_name = Some ''Lahore US Consulate'', distance_km = JNum (Fin 3.2),
      latitude = JNum (Fin 31.523), longitude = JNum (Fin 74.366),
      pm25 = JNum (Fin 82.5), pm10 = JNum (Fin 110.3),
      temperature_celsius = JUndefined, relative_humidity = JUndefined,
      wind_speed = JUndefined, last_updated = Some ''2025-10-05T06:30:00Z'',
      weather_time = None, warning = None, message = None\<rparr>"

section \<open>The data card (components/DataCard.jsx)\<close>

text \<open>
  \<open>formatValue\<close>. The rendering of a number, \<open>Number.prototype.toFixed\<close>, is a
  parameter. The units are UTF-8 bytes.
\<close>

definition formatValue :: "(jsnum \<Rightarrow> nat \<Rightarrow> string) \<Rightarrow> jsval \<Rightarrow> string \<Rightarrow> nat \<Rightarrow> string" where
  "formatValue toFixed v unit decimals =
     (case v of
        JNull \<Rightarrow> ''N/A''
      | JUndefined \<Rightarrow> ''N/A''
      | JNum x \<Rightarrow> toFixed x decimals @ unit)"

definition unit_ugm3 :: string where
  "unit_ugm3 = '' '' @ [CHR 0xCE, CHR 0xBC] @ ''g/m'' @ [CHR 0xC2, CHR 0xB3]"

definition unit_degree :: string where
  "unit_degree = [CHR 0xC2, CHR 0xB0]"

definition unit_celsius :: string where
  "unit_celsius = [CHR 0xC2, CHR 0xB0] @ ''C''"

text \<open>
  The response of \<open>/predict/from-coordinates\<close> as the card reads it: \<open>status\<close>, the
  entries of \<open>predictions\<close> in the order of \<open>Object.entries\<close>, and
  \<open>input_data.timestamp\<close>.
\<close>

record prediction_response =
  status :: string
  predictions :: "(string \<times> jsval) list"
  input_timestamp :: "string option"

datatype station_panel =
  StationInfo string string string string
  | NoStationFound "string option"

record prediction_tile =
  horizon :: string
  shown_value :: jsval
  badge :: category_info

text \<open>
  What the card shows once a location is selected and data has arrived: the station
  panel, the status panel (the classifier's answer and the formatted PM2.5), the four
  cells of the data grid, the prediction tiles and the warning line. The button, the
  prediction error line and the two timestamps, which no band or colour depends on, are
  left out.
\<close>

record card_view =
  stationPanel :: station_panel
  statusPanel :: "(category_info \<times> string) option"
  pm25Cell :: string
  temperatureCell :: string
  humidityCell :: string
  windCell :: string
  predictionTiles :: "prediction_tile list option"
  warningLine :: "string option"

definition card_of :: "(jsnum \<Rightarrow> nat \<Rightarrow> string) \<Rightarrow> air_quality_data \<Rightarrow> prediction_response option \<Rightarrow> card_view" where
  "card_of toFixed d preds =
     (let airQualityInfo = getAirQualityCategory (pm25 d) in
      \<lparr>stationPanel =
         (case station_name d of
            None \<Rightarrow> NoStationFound (message d)
          | Some n \<Rightarrow>
              if n \<noteq> [] then
                StationInfo n (formatValue toFixed (distance_km d) '' km'' 1)
                  (formatValue toFixed (latitude d) unit_degree 4)
                  (formatValue toFixed (longitude d) unit_degree 4)
              else NoStationFound (message d)),
       statusPanel =
         (if pm25 d \<noteq> JNull \<and> pm25 d \<noteq> JUndefined then
            Some (airQualityInfo, formatValue toFixed (pm25 d) unit_ugm3 1)
          else None),
       pm25Cell = formatValue toFixed (pm25 d) unit_ugm3 1,
       temperatureCell = formatValue toFixed (temperature_celsius d) unit_celsius 1,
       humidityCell = formatValue toFixed (relative_humidity d) ''%'' 0,
       windCell = formatValue toFixed (wind_speed d) '' m/s'' 1,
       predictionTiles =
         (case preds of
            None \<Rightarrow> None
          | Some p \<Rightarrow>
              if status p = ''success'' then
                Some (map (\<lambda>(h, v). \<lparr>horizon = h, shown_value = v,
                                    badge = getAirQualityCategory v\<rparr>) (predictions p))
              else None),
       warningLine = (if truthy_str (warning d) then warning d else None)\<rparr>)"

datatype view = Welcome | Loading | ErrorPanel string | NoData | Card card_view

text \<open>
  The early returns of the component, in their order. The error panel is kept by its
  fixed line of text.
\<close>

definition DataCard ::
  "(jsnum \<Rightarrow> nat \<Rightarrow> string) \<Rightarrow> air_quality_data option \<Rightarrow> bool \<Rightarrow> string option \<Rightarrow>
   (jsnum \<times> jsnum) option \<Rightarrow> prediction_response option \<Rightarrow> view" where
  "DataCard toFixed data isLoading error selectedLocation preds =
     (if selectedLocation = None then Welcome
      else if isLoading then Loading
      else if truthy_str error then ErrorPanel ''Failed to fetch air quality data''
      else case data of None \<Rightarrow> NoData | Some d \<Rightarrow> Card (card_of toFixed d preds))"

section \<open>The application state (App.jsx)\<close>

record app_state =
  selectedLocation :: "(jsnum \<times> jsnum) option"
  airQualityData :: "air_quality_data option"
  predictions_state :: "prediction_response option"
  isLoading :: bool
  isPredictionLoading :: bool
  error :: "string option"
  predictionError :: "string option"

text \<open>
  \<open>handleLocationSelect\<close>, from the click to the end of its \<open>finally\<close>. The outcome of
  \<open>fetchAirQualityData\<close> is its argument: \<open>Inr\<close> the parsed answer, \<open>Inl\<close> the error it
  throws when the request fails or the HTTP status is not ok.
\<close>

definition handleLocationSelect ::
  "(string + air_quality_data) \<Rightarrow> jsnum \<Rightarrow> jsnum \<Rightarrow> app_state \<Rightarrow> app_state" where
  "handleLocationSelect fetched lat lng st =
     (let st1 = st\<lparr>selectedLocation := Some (lat, lng), isLoading := True, error := None,
                    airQualityData := None, predictions_state := None,
                    predictionError := None\<rparr>
      in case fetched of
           Inr airQualityResult \<Rightarrow>
             st1\<lparr>airQualityData := Some airQualityResult, isLoading := False\<rparr>
         | Inl err \<Rightarrow>
             st1\<lparr>error := Some ''Failed to fetch air quality data'', isLoading := False\<rparr>)"

definition initial_state :: app_state where
  "initial_state =
     \<lparr>selectedLocation = None, airQualityData = None, predictions_state = None,
      isLoading = False, isPredictionLoading = False, error = None, predictionError = None\<rparr>"

text \<open>What \<open>App\<close> hands to the data card and to the marker of the map.\<close>

definition card_shown :: "(jsnum \<Rightarrow> nat \<Rightarrow> string) \<Rightarrow> app_state \<Rightarrow> view" where
  "card_shown toFixed st =
     DataCard toFixed (airQualityData st) (isLoading st) (error st) (selectedLocation st)
       (predictions_state st)"

definition marker_shown :: "app_state \<Rightarrow> icon option" where
  "marker_shown st =
     (if selectedLocation st = None then None else Some (getMarkerIcon (airQualityData st)))"

section \<open>The backend pipeline\<close>

text \<open>
  The backend (\<open>main.py\<close>, its routers, services and forecast models) is not among the
  sources: only its README is. The definitions of this section follow the specification.
\<close>

text \<open>
  Modelled from the spec: the Coordinate of the data model, which the absent backend
  takes as its query.
\<close>

record coordinate =
  lat :: real
  lon :: real

text \<open>
  Modelled from the spec: the Station of the data model, which the absent backend reads
  from the station registry (PM2.5 and PM10 may be missing; the time is a number so that
  staleness and recency can be compared).
\<close>

record station =
  station_id :: nat
  station_label :: string
  location :: coordinate
  reading_pm25 :: "real option"
  reading_pm10 :: "real option"
  reading_time :: int

text \<open>
  Modelled from the spec: the current weather the absent Weather Enricher fetches.
\<close>

record weather_reading =
  temperature :: real
  humidity :: real
  wind :: real
  observed_at :: int

text \<open>
  Modelled from the spec: the collaborators of the absent pipeline and its configuration.
  The registry and the weather provider answer \<open>None\<close> when they are unavailable; the
  Distance Engine is a parameter; \<open>timestamp_text\<close> is the serialisation of a time.
\<close>

record pipeline_env =
  registry :: "coordinate \<Rightarrow> nat \<Rightarrow> station list option"
  weather_provider :: "coordinate \<Rightarrow> weather_reading option"
  distance :: "coordinate \<Rightarrow> coordinate \<Rightarrow> real"
  now :: int
  staleness_ceiling :: int
  timestamp_text :: "int \<Rightarrow> string"

text \<open>
  Modelled from the spec: the radius tiers of the absent Progressive Station Locator, in
  kilometres.
\<close>

definition radii :: "nat list" where
  "radii = [1, 5, 10, 25]"

text \<open>
  Modelled from the spec: steps 1 and 2 of a tier of the absent locator. A station is a
  candidate of the tier when it lies within the tier's radius, has a PM2.5 reading and
  the reading is not older than the staleness ceiling.
\<close>

definition usable :: "pipeline_env \<Rightarrow> coordinate \<Rightarrow> nat \<Rightarrow> station \<Rightarrow> bool" where
  "usable env q r s =
     (distance env q (location s) \<le> real r \<and> reading_pm25 s \<noteq> None \<and>
      now env - reading_time s \<le> staleness_ceiling env)"

text \<open>
  Modelled from the spec: the candidates of a tier of the absent locator, \<open>None\<close> when
  the registry is unavailable.
\<close>

definition tier_candidates :: "pipeline_env \<Rightarrow> coordinate \<Rightarrow> nat \<Rightarrow> station list option" where
  "tier_candidates env q r = map_option (filter (usable env q r)) (registry env q r)"

text \<open>
  Modelled from the spec: the order of step 3 in a tier of the absent locator, by
  distance, then by the more recent reading, then by identifier.
\<close>

definition preferred :: "pipeline_env \<Rightarrow> coordinate \<Rightarrow> station \<Rightarrow> station \<Rightarrow> bool" where
  "preferred env q s t =
     (let ds = distance env q (location s); dt = distance env q (location t) in
      ds < dt \<or>
      (ds = dt \<and>
        (reading_time t < reading_time s \<or>
         (reading_time s = reading_time t \<and> station_id s \<le> station_id t))))"

text \<open>
  Modelled from the spec: the selection of step 3 in the absent locator, the candidate
  that is preferred to all the others.
\<close>

fun nearest :: "pipeline_env \<Rightarrow> coordinate \<Rightarrow> station list \<Rightarrow> station option" where
  "nearest env q [] = None"
| "nearest env q (s # ss) =
     (case nearest env q ss of
        None \<Rightarrow> Some s
      | Some t \<Rightarrow> if preferred env q s t then Some s else Some t)"

text \<open>
  Modelled from the spec: the three outcomes of the absent locator. \<open>Found\<close> carries the
  station and its distance, \<open>NotFound\<close> the search ceiling.
\<close>

datatype locate_result = Found station real | NotFound nat | UpstreamUnavailable

text \<open>
  Modelled from the spec: the loop of the absent locator over the tiers. The second
  component is the list of the radii the registry was queried with, in the order of the
  queries.
\<close>

fun search_tiers ::
  "pipeline_env \<Rightarrow> coordinate \<Rightarrow> nat \<Rightarrow> nat list \<Rightarrow> locate_result \<times> nat list" where
  "search_tiers env q limit [] = (NotFound limit, [])"
| "search_tiers env q limit (r # rs) =
     (case tier_candidates env q r of
        None \<Rightarrow> (UpstreamUnavailable, [r])
      | Some cs \<Rightarrow>
          (case nearest env q cs of
             Some s \<Rightarrow> (Found s (distance env q (location s)), [r])
           | None \<Rightarrow>
               (case search_tiers env q limit rs of
                  (res, queried) \<Rightarrow> (res, r # queried))))"

text \<open>
  Modelled from the spec: the absent Progressive Station Locator; the ceiling is the last
  tier.
\<close>

definition locate :: "pipeline_env \<Rightarrow> coordinate \<Rightarrow> locate_result \<times> nat list" where
  "locate env q = search_tiers env q (last radii) radii"

text \<open>
  Modelled from the spec: the Observation of the data model, which the absent backend
  assembles for one request.
\<close>

record observation =
  obs_station :: "station option"
  obs_distance :: "real option"
  obs_pm25 :: "real option"
  obs_pm10 :: "real option"
  obs_temperature :: "real option"
  obs_humidity :: "real option"
  obs_wind :: "real option"
  obs_pollutant_time :: "int option"
  obs_weather_time :: "int option"
  obs_warning :: "string option"
  obs_message :: "string option"

text \<open>
  Modelled from the spec: the observation the absent backend builds from a station found
  at a distance, before the weather is merged in.
\<close>

definition station_observation :: "station \<Rightarrow> real \<Rightarrow> observation" where
  "station_observation s d =
     \<lparr>obs_station = Some s, obs_distance = Some d, obs_pm25 = reading_pm25 s,
      obs_pm10 = reading_pm10 s, obs_temperature = None, obs_humidity = None,
      obs_wind = None, obs_pollutant_time = Some (reading_time s), obs_weather_time = None,
      obs_warning = None, obs_message = None\<rparr>"

text \<open>
  Modelled from the spec: the decimal digits of a number, for the message of the absent
  backend.
\<close>

fun digits_of :: "nat \<Rightarrow> string" where
  "digits_of n =
     (if n < 10 then [''0123456789'' ! n]
      else digits_of (n div 10) @ [''0123456789'' ! (n mod 10)])"

declare digits_of.simps [simp del]

text \<open>
  Modelled from the spec: the "no station found" result of the absent backend. It has no
  station and carries the search ceiling in its message, worded as in the README.
\<close>

definition not_found_observation :: "nat \<Rightarrow> observation" where
  "not_found_observation limit =
     \<lparr>obs_station = None, obs_distance = None, obs_pm25 = None, obs_pm10 = None,
      obs_temperature = None, obs_humidity = None, obs_wind = None,
      obs_pollutant_time = None, obs_weather_time = None, obs_warning = None,
      obs_message = Some (''No station found within '' @ digits_of limit @ '' km'')\<rparr>"

text \<open>
  Modelled from the spec: the warning marker of the absent Weather Enricher. The
  specification fixes no wording.
\<close>

definition weather_warning :: string where
  "weather_warning = ''Weather data unavailable''"

text \<open>
  Modelled from the spec: the absent Weather Enricher. When the provider fails, the
  weather fields stay unavailable and the warning marker is attached.
\<close>

definition enrich :: "pipeline_env \<Rightarrow> coordinate \<Rightarrow> observation \<Rightarrow> observation" where
  "enrich env c obs =
     (case weather_provider env c of
        None \<Rightarrow> obs\<lparr>obs_warning := Some weather_warning\<rparr>
      | Some w \<Rightarrow>
          obs\<lparr>obs_temperature := Some (temperature w), obs_humidity := Some (humidity w),
              obs_wind := Some (wind w), obs_weather_time := Some (observed_at w)\<rparr>)"

text \<open>
  Modelled from the spec: the failure of a request of the absent backend.
\<close>

datatype request_failure = UpstreamUnavailableFailure

text \<open>
  Modelled from the spec: the resolution request of the absent backend. The weather is
  fetched for the coordinate of the station.
\<close>

definition resolve :: "pipeline_env \<Rightarrow> coordinate \<Rightarrow> request_failure + observation" where
  "resolve env q =
     (case fst (locate env q) of
        UpstreamUnavailable \<Rightarrow> Inl UpstreamUnavailableFailure
      | NotFound limit \<Rightarrow> Inr (not_found_observation limit)
      | Found s d \<Rightarrow> Inr (enrich env (location s) (station_observation s d)))"

text \<open>
  Modelled from the spec: a number in the JSON the absent backend answers with, under
  the field names the README and the frontend use. An unavailable value is \<open>null\<close>.
\<close>

definition json_number :: "real option \<Rightarrow> jsval" where
  "json_number v = (case v of None \<Rightarrow> JNull | Some x \<Rightarrow> JNum (Fin x))"

text \<open>
  Modelled from the spec: the answer of the absent backend's resolution request, built
  from the observation.
\<close>

definition to_response :: "pipeline_env \<Rightarrow> observation \<Rightarrow> air_quality_data" where
  "to_response env obs =
     \<lparr>station_name = map_option station_label (obs_station obs),
      distance_km = json_number (obs_distance obs),
      latitude = json_number (map_option (\<lambda>s. lat (location s)) (obs_station obs)),
      longitude = json_number (map_option (\<lambda>s. lon (location s)) (obs_station obs)),
      pm25 = json_number (obs_pm25 obs),
      pm10 = json_number (obs_pm10 obs),
      temperature_celsius = json_number (obs_temperature obs),
      relative_humidity = json_number (obs_humidity obs),
      wind_speed = json_number (obs_wind obs),
      last_updated = map_option (timestamp_text env) (obs_pollutant_time obs),
      weather_time = map_option (timestamp_text env) (obs_weather_time obs),
      warning = obs_warning obs,
      message = obs_message obs\<rparr>"

text \<open>
  Modelled from the spec: what \<open>fetchAirQualityData\<close> receives from the absent backend.
  A failed request is an HTTP error, which the fetch throws.
\<close>

definition fetch_outcome :: "pipeline_env \<Rightarrow> coordinate \<Rightarrow> string + air_quality_data" where
  "fetch_outcome env q =
     (case resolve env q of
        Inl f \<Rightarrow> Inl ''HTTP error!''
      | Inr obs \<Rightarrow> Inr (to_response env obs))"

subsection \<open>The forecast dispatcher\<close>

text \<open>
  Modelled from the spec: the four horizons of the absent Forecast Dispatcher.
\<close>

datatype horizon_id = H1 | H6 | H12 | H24

text \<open>
  Modelled from the spec: the default set of horizons of a request to the absent
  dispatcher.
\<close>

definition all_horizons :: "horizon_id list" where
  "all_horizons = [H1, H6, H12, H24]"

text \<open>
  Modelled from the spec: the entry of one horizon in the PredictionSet of the absent
  dispatcher, a value or the error marker.
\<close>

datatype horizon_entry = Predicted real | HorizonError

text \<open>
  Modelled from the spec: whether an entry of the absent dispatcher is a value.
\<close>

fun is_value :: "horizon_entry \<Rightarrow> bool" where
  "is_value (Predicted v) = True"
| "is_value HorizonError = False"

text \<open>
  Modelled from the spec: one horizon of the absent dispatcher. The model store answers
  \<open>None\<close> when the model is missing; a prediction is clamped at 0.
\<close>

definition predict_horizon ::
  "(horizon_id \<Rightarrow> (real list \<Rightarrow> real) option) \<Rightarrow> real list \<Rightarrow> horizon_id \<Rightarrow> horizon_entry" where
  "predict_horizon store fv h =
     (case store h of None \<Rightarrow> HorizonError | Some m \<Rightarrow> Predicted (max 0 (m fv)))"

text \<open>
  Modelled from the spec: the overall status of the absent dispatcher's PredictionSet.
\<close>

definition overall_status :: "horizon_entry list \<Rightarrow> string" where
  "overall_status es =
     (if list_all is_value es then ''success''
      else if list_ex is_value es then ''partial''
      else ''failed'')"

text \<open>
  Modelled from the spec: the PredictionSet of the data model, with the entries of the
  horizons, the overall status and the time of the input observation.
\<close>

record prediction_set =
  entries :: "(horizon_id \<times> horizon_entry) list"
  overall :: string
  provenance :: "int option"

text \<open>
  Modelled from the spec: the absent Forecast Dispatcher. Every requested horizon is
  predicted on its own.
\<close>

definition dispatch ::
  "(horizon_id \<Rightarrow> (real list \<Rightarrow> real) option) \<Rightarrow> real list \<Rightarrow> int option \<Rightarrow> horizon_id list \<Rightarrow>
   prediction_set" where
  "dispatch store fv t hs =
     (let es = map (\<lambda>h. (h, predict_horizon store fv h)) hs in
      \<lparr>entries = es, overall = overall_status (map snd es), provenance = t\<rparr>)"

subsection \<open>Example environments\<close>

text \<open>
  Modelled from the spec: the query point of the examples for the absent pipeline.
\<close>

definition origin :: coordinate where
  "origin = \<lparr>lat = 0, lon = 0\<rparr>"

text \<open>
  Modelled from the spec: the Distance Engine of the examples. The stations of the
  examples lie on the meridian of the query point, where a degree of latitude is taken
  as 111 km.
\<close>

definition meridian_km :: "coordinate \<Rightarrow> coordinate \<Rightarrow> real" where
  "meridian_km a b = 111 * \<bar>lat a - lat b\<bar>"

text \<open>
  Modelled from the spec: the station of the first end-to-end scenario, at 0.8 km with
  PM2.5 82.5.
\<close>

definition station_near :: station where
  "station_near =
     \<lparr>station_id = 1, station_label = ''Lahore US Consulate'',
      location = \<lparr>lat = 0.8 / 111, lon = 0\<rparr>, reading_pm25 = Some 82.5,
      reading_pm10 = Some 110.3, reading_time = 900\<rparr>"

text \<open>
  Modelled from the spec: the station of the second end-to-end scenario, at 12 km.
\<close>

definition station_far :: station where
  "station_far =
     \<lparr>station_id = 2, station_label = ''Ring Road'',
      location = \<lparr>lat = 12 / 111, lon = 0\<rparr>, reading_pm25 = Some 40,
      reading_pm10 = None, reading_time = 950\<rparr>"

text \<open>
  Modelled from the spec: a station at 0.5 km whose latest reading has no PM2.5.
\<close>

definition station_silent :: station where
  "station_silent =
     \<lparr>station_id = 3, station_label = ''Canal Bank'',
      location = \<lparr>lat = 0.5 / 111, lon = 0\<rparr>, reading_pm25 = None,
      reading_pm10 = Some 60, reading_time = 990\<rparr>"

text \<open>
  Modelled from the spec: an environment of the absent pipeline whose registry answers
  with every station it knows, so that the locator filters, and whose weather provider
  fails.
\<close>

definition world :: "station list \<Rightarrow> pipeline_env" where
  "world ss =
     \<lparr>registry = (\<lambda>q r. Some ss), weather_provider = (\<lambda>c. None),
      distance = meridian_km, now = 1000, staleness_ceiling = 3600,
      timestamp_text = (\<lambda>t. digits_of (nat t))\<rparr>"

text \<open>
  Modelled from the spec: the world of the first scenario, a station with a reading
  within 1 km.
\<close>

definition env_near :: pipeline_env where
  "env_near = world [station_silent, station_near, station_far]"

text \<open>
  Modelled from the spec: the world of the second scenario, the nearest station with a
  reading at 12 km.
\<close>

definition env_far :: pipeline_env where
  "env_far = world [station_silent, station_far]"

text \<open>
  Modelled from the spec: a world with no station with a reading within 25 km.
\<close>

definition env_empty :: pipeline_env where
  "env_empty = world [station_silent]"

text \<open>
  Modelled from the spec: a world whose station registry is unavailable.
\<close>

definition env_down :: pipeline_env where
  "env_down = (world [station_near])\<lparr>registry := (\<lambda>q r. None)\<rparr>"

text \<open>
  Modelled from the spec: a model store in which only the model of the 6 hour horizon is
  missing.
\<close>

definition store_without_6h :: "horizon_id \<Rightarrow> (real list \<Rightarrow> real) option" where
  "store_without_6h h = (if h = H6 then None else Some (\<lambda>fv. sum_list fv))"

section \<open>Properties of the classifier\<close>

lemma category_of_finite:
  "category (getAirQualityCategory (JNum (Fin x))) =
     (if x \<le> 15 then ''Good'' else if x \<le> 25 then ''Moderate''
      else if x \<le> 37.5 then ''Unhealthy for Sensitive''
      else if x \<le> 75 then ''Unhealthy'' else ''Very Unhealthy'')"
  by (simp add: getAirQualityCategory_def js_lte_def)

lemma category_of_NaN:
  "getAirQualityCategory (JNum NaN) =
     \<lparr>category = ''Very Unhealthy'', color = ''bg-purple-600'', textColor = ''text-white'',
      description = ''Health alert: everyone may experience serious effects''\<rparr>"
  by (simp add: getAirQualityCategory_def js_lte_def)

lemma category_of_NegInf: "category (getAirQualityCategory (JNum NegInf)) = ''Good''"
  by (simp add: getAirQualityCategory_def js_lte_def)

lemma category_of_PosInf: "category (getAirQualityCategory (JNum PosInf)) = ''Very Unhealthy''"
  by (simp add: getAirQualityCategory_def js_lte_def)

lemma category_of_missing:
  "getAirQualityCategory JNull =
     \<lparr>category = ''Unknown'', color = ''bg-gray-500'', textColor = ''text-white'',
      description = ''No data available''\<rparr>"
  "getAirQualityCategory JUndefined =
     \<lparr>category = ''Unknown'', color = ''bg-gray-500'', textColor = ''text-white'',
      description = ''No data available''\<rparr>"
  by (simp_all add: getAirQualityCategory_def)

lemma category_numeric_band: "category (getAirQualityCategory (JNum x)) \<in> set numeric_bands"
  by (cases x)
    (simp_all add: category_of_finite category_of_NaN category_of_NegInf category_of_PosInf
      numeric_bands_def)

text \<open>
  Claim C1, as the specification has it: the bands are half-open with exclusive upper
  bounds, so that 15 is Moderate, 25 is Unhealthy for Sensitive Groups, 37.5 is Unhealthy
  and 75 is Very Unhealthy. The code compares with \<open><=\<close>: a reading equal to a bound stays
  in the band below.
\<close>

theorem C1_upper_bound_counterexample:
  "category (getAirQualityCategory (JNum (Fin 15))) = ''Good'' \<and>
   category (getAirQualityCategory (JNum (Fin 15))) \<noteq> ''Moderate'' \<and>
   category (getAirQualityCategory (JNum (Fin 25))) = ''Moderate'' \<and>
   category (getAirQualityCategory (JNum (Fin 37.5))) = ''Unhealthy for Sensitive'' \<and>
   category (getAirQualityCategory (JNum (Fin 75))) = ''Unhealthy'' \<and>
   category (getAirQualityCategory (JNum (Fin 75))) \<noteq> ''Very Unhealthy''"
  by (simp add: category_of_finite)

text \<open>
  Claim C1, amended: the upper bound of every band is inclusive. For a finite reading
  \<open>x\<close> the label is Good exactly when \<open>x \<le> 15\<close>, Moderate exactly when
  \<open>15 < x \<le> 25\<close>, Unhealthy for Sensitive exactly when \<open>25 < x \<le> 37.5\<close>, Unhealthy
  exactly when \<open>37.5 < x \<le> 75\<close> and Very Unhealthy exactly when \<open>75 < x\<close>; so 14.9
  and 15 are Good, 25 is Moderate, 37.5 is Unhealthy for Sensitive and 75 is Unhealthy.
\<close>

theorem C1_inclusive_upper_bounds:
  "(category (getAirQualityCategory (JNum (Fin x))) = ''Good'') = (x \<le> 15) \<and>
   (category (getAirQualityCategory (JNum (Fin x))) = ''Moderate'') = (15 < x \<and> x \<le> 25) \<and>
   (category (getAirQualityCategory (JNum (Fin x))) = ''Unhealthy for Sensitive'')
      = (25 < x \<and> x \<le> 37.5) \<and>
   (category (getAirQualityCategory (JNum (Fin x))) = ''Unhealthy'') = (37.5 < x \<and> x \<le> 75) \<and>
   (category (getAirQualityCategory (JNum (Fin x))) = ''Very Unhealthy'') = (75 < x) \<and>
   category (getAirQualityCategory (JNum (Fin 14.9))) = ''Good'' \<and>
   category (getAirQualityCategory (JNum (Fin 15))) = ''Good'' \<and>
   category (getAirQualityCategory (JNum (Fin 25))) = ''Moderate'' \<and>
   category (getAirQualityCategory (JNum (Fin 37.5))) = ''Unhealthy for Sensitive'' \<and>
   category (getAirQualityCategory (JNum (Fin 75))) = ''Unhealthy''"
  by (simp add: category_of_finite)

theorem C1_inclusive_upper_bounds_witness:
  "category (getAirQualityCategory (JNum (Fin 25.01))) = ''Unhealthy for Sensitive''"
  using C1_inclusive_upper_bounds [of "25.01"] by simp

text \<open>
  Claim C3: the classifier is monotone. For numbers \<open>x <= y\<close> (the comparison of
  JavaScript, which no \<open>NaN\<close> satisfies) both labels are numeric bands and the rank of
  the band of \<open>x\<close> is at most the rank of the band of \<open>y\<close>, in the order Good, Moderate,
  Unhealthy for Sensitive, Unhealthy, Very Unhealthy.
\<close>

theorem C3_classifier_monotone:
  "js_le x y \<Longrightarrow>
   \<exists>a b. severity_rank (category (getAirQualityCategory (JNum x))) = Some a \<and>
         severity_rank (category (getAirQualityCategory (JNum y))) = Some b \<and> a \<le> b"
  by (cases x; cases y)
    (simp_all add: category_of_finite category_of_NaN category_of_NegInf category_of_PosInf
      severity_rank_def)

theorem C3_classifier_monotone_witness:
  "js_le (Fin 15) (Fin 15.5) \<and>
   (\<exists>a b. severity_rank (category (getAirQualityCategory (JNum (Fin 15)))) = Some a \<and>
          severity_rank (category (getAirQualityCategory (JNum (Fin 15.5)))) = Some b \<and> a \<le> b)"
proof -
  have le: "js_le (Fin 15) (Fin 15.5)" by simp
  from C3_classifier_monotone [OF le] le show ?thesis by blast
qed

text \<open>
  Claim C4: for \<open>null\<close> and for \<open>undefined\<close> the classifier answers the band Unknown.
  Unknown is none of the five numeric bands, every number is given one of those five,
  and so the answer is Unknown exactly for the two missing values.
\<close>

theorem C4_unknown_band:
  "getAirQualityCategory JNull =
     \<lparr>category = ''Unknown'', color = ''bg-gray-500'', textColor = ''text-white'',
      description = ''No data available''\<rparr> \<and>
   getAirQualityCategory JUndefined = getAirQualityCategory JNull \<and>
   ''Unknown'' \<notin> set numeric_bands \<and>
   category (getAirQualityCategory (JNum x)) \<in> set numeric_bands \<and>
   (category (getAirQualityCategory v) = ''Unknown'') = (v = JNull \<or> v = JUndefined)"
proof -
  have unknown: "''Unknown'' \<notin> set numeric_bands"
    by (simp add: numeric_bands_def)
  have "(category (getAirQualityCategory v) = ''Unknown'') = (v = JNull \<or> v = JUndefined)"
  proof (cases v)
    case (JNum n)
    with category_numeric_band [of n] unknown show ?thesis by auto
  qed (simp_all add: category_of_missing)
  with unknown category_numeric_band [of x] show ?thesis
    by (simp add: category_of_missing)
qed

theorem C4_unknown_band_witness:
  "category (getAirQualityCategory (JNum (Fin 0))) \<noteq> ''Unknown'' \<and>
   category (getAirQualityCategory JUndefined) = ''Unknown''"
  using C4_unknown_band [of "Fin 0" "JNum (Fin 0)"] C4_unknown_band [of "Fin 0" JUndefined]
  by simp

text \<open>
  Claim C9: for \<open>NaN\<close> every threshold comparison is false, so the classifier falls
  through to its last branch and answers Very Unhealthy, not Unknown.
\<close>

theorem C9_nan_very_unhealthy:
  "\<not> js_lte (JNum NaN) c \<and>
   getAirQualityCategory (JNum NaN) =
     \<lparr>category = ''Very Unhealthy'', color = ''bg-purple-600'', textColor = ''text-white'',
      description = ''Health alert: everyone may experience serious effects''\<rparr> \<and>
   category (getAirQualityCategory (JNum NaN)) \<noteq> ''Unknown'' \<and>
   getAirQualityCategory (JNum NaN) \<noteq> getAirQualityCategory JNull \<and>
   getAirQualityCategory (JNum NaN) \<noteq> getAirQualityCategory JUndefined"
  by (simp add: category_of_NaN category_of_missing js_lte_def)

theorem C9_nan_very_unhealthy_witness:
  "\<not> js_lte (JNum NaN) 15 \<and> \<not> js_lte (JNum NaN) 75 \<and>
   category (getAirQualityCategory (JNum NaN)) = ''Very Unhealthy''"
  using C9_nan_very_unhealthy [of 15] C9_nan_very_unhealthy [of 75] by simp

text \<open>
  Claim C10: when the \<open>pm25\<close> of the data is 0, the marker of the map is the gray icon
  of "no data" (\<open>#6b7280\<close>), the icon of an absent answer, and not the green one, because
  the guard \<open>!airQualityData.pm25\<close> holds for 0; the data card shows its status panel for
  the same data, with the classifier's answer Good. So after a click answered with such
  data the application shows the gray marker beside the card of a Good reading.
\<close>

theorem C10_zero_marker_gray:
  "pm25 d = JNum (Fin 0) \<Longrightarrow>
   getMarkerIcon (Some d) = createCustomIcon ''#6b7280'' \<and>
   getMarkerIcon (Some d) = getMarkerIcon None \<and>
   getMarkerIcon (Some d) \<noteq> createCustomIcon ''#10b981'' \<and>
   \<not> truthy (pm25 d) \<and>
   category (getAirQualityCategory (pm25 d)) = ''Good'' \<and>
   color (getAirQualityCategory (pm25 d)) = ''bg-green-500'' \<and>
   map_option fst (statusPanel (card_of toFixed d preds)) = Some (getAirQualityCategory (pm25 d)) \<and>
   marker_shown (handleLocationSelect (Inr d) la lo st) = Some (createCustomIcon ''#6b7280'') \<and>
   card_shown toFixed (handleLocationSelect (Inr d) la lo st) = Card (card_of toFixed d None)"
  by (simp add: getMarkerIcon_def createCustomIcon_def getAirQualityCategory_def js_lte_def
      card_of_def marker_shown_def card_shown_def handleLocationSelect_def DataCard_def)

theorem C10_zero_marker_gray_witness:
  "pm25 (example_response\<lparr>pm25 := JNum (Fin 0)\<rparr>) = JNum (Fin 0) \<and>
   getMarkerIcon (Some (example_response\<lparr>pm25 := JNum (Fin 0)\<rparr>)) = createCustomIcon ''#6b7280'' \<and>
   category (getAirQualityCategory (pm25 (example_response\<lparr>pm25 := JNum (Fin 0)\<rparr>))) = ''Good''"
proof -
  have zero: "pm25 (example_response\<lparr>pm25 := JNum (Fin 0)\<rparr>) = JNum (Fin 0)" by simp
  from C10_zero_marker_gray [OF zero] zero show ?thesis by blast
qed

section \<open>Properties of the backend pipeline\<close>

subsection \<open>The locator\<close>

lemma nearest_None: "(nearest env q cs = None) = (cs = [])"
  by (induction cs) (auto split: option.splits)

lemma nearest_member: "nearest env q cs = Some s \<Longrightarrow> s \<in> set cs"
  by (induction cs arbitrary: s) (auto split: option.splits if_splits)

lemma search_tiers_log_prefix: "\<exists>rest. rs = snd (search_tiers env q limit rs) @ rest"
  by (induction rs) (auto split: option.splits prod.splits)

lemma search_tiers_stops:
  assumes "\<forall>r'\<in>set pre. tier_candidates env q r' = Some []"
    and "tier_candidates env q r = Some (c # cs)"
  shows "snd (search_tiers env q limit (pre @ r # post)) = pre @ [r] \<and>
         (\<exists>s. fst (search_tiers env q limit (pre @ r # post))
                = Found s (distance env q (location s)) \<and> s \<in> set (c # cs))"
  using assms
proof (induction pre)
  case Nil
  obtain s where s: "nearest env q (c # cs) = Some s"
    using nearest_None [of env q "c # cs"] by (cases "nearest env q (c # cs)") auto
  with nearest_member [OF s] Nil show ?case by auto
next
  case (Cons a pre)
  then show ?case by (auto split: prod.splits)
qed

lemma search_tiers_exhausted:
  "\<forall>r\<in>set rs. tier_candidates env q r = Some [] \<Longrightarrow>
   search_tiers env q limit rs = (NotFound limit, rs)"
  by (induction rs) auto

lemma search_tiers_found:
  "fst (search_tiers env q limit rs) = Found s d \<Longrightarrow>
   \<exists>r\<in>set rs. \<exists>cs. tier_candidates env q r = Some cs \<and> s \<in> set cs \<and>
      d = distance env q (location s)"
  by (induction rs) (auto split: option.splits prod.splits dest: nearest_member)

lemma candidate_usable:
  "tier_candidates env q r = Some cs \<Longrightarrow> s \<in> set cs \<Longrightarrow> usable env q r s"
  by (auto simp: tier_candidates_def)

lemma digits_of_25: "digits_of 25 = ''25''"
  by (simp add: digits_of.simps [of 25] digits_of.simps [of 2])

lemma locate_unavailable:
  "tier_candidates env q 1 = None \<Longrightarrow> locate env q = (UpstreamUnavailable, [1])"
  by (simp add: locate_def radii_def)

lemma not_found_card:
  "card_shown toFixed
     (handleLocationSelect (Inr (to_response env (not_found_observation limit))) la lo st)
   = Card (card_of toFixed (to_response env (not_found_observation limit)) None)"
  by (simp add: card_shown_def handleLocationSelect_def DataCard_def)

lemma failed_fetch_card:
  "card_shown toFixed (handleLocationSelect (Inl e) la lo st)
   = ErrorPanel ''Failed to fetch air quality data''"
  by (simp add: card_shown_def handleLocationSelect_def DataCard_def)

text \<open>
  Claim C5: when every tier is answered and none has a usable station, the locator
  returns the "no station found" result with the ceiling 25, after querying the four
  tiers; the result has no station and the message of the README, the request succeeds
  and the data card shows its "No Station Found" panel with that message. When the
  registry is unavailable the locator returns the other outcome, the request fails and
  the card shows its error panel.
\<close>

theorem C5_no_station_found:
  assumes "\<forall>r\<in>set radii. tier_candidates env q r = Some []"
  shows "locate env q = (NotFound 25, [1, 5, 10, 25]) \<and>
         fst (locate env q) \<noteq> UpstreamUnavailable \<and>
         resolve env q = Inr (not_found_observation 25) \<and>
         obs_station (not_found_observation 25) = None \<and>
         obs_message (not_found_observation 25) = Some ''No station found within 25 km'' \<and>
         (\<exists>c. card_shown toFixed (handleLocationSelect (fetch_outcome env q) la lo st) = Card c \<and>
              stationPanel c = NoStationFound (Some ''No station found within 25 km'') \<and>
              statusPanel c = None) \<and>
         (\<forall>env'. tier_candidates env' q 1 = None \<longrightarrow>
            fst (locate env' q) = UpstreamUnavailable \<and>
            resolve env' q = Inl UpstreamUnavailableFailure \<and>
            card_shown toFixed (handleLocationSelect (fetch_outcome env' q) la lo st)
              = ErrorPanel ''Failed to fetch air quality data'')"
proof -
  have loc: "locate env q = (NotFound 25, [1, 5, 10, 25])"
    using search_tiers_exhausted [OF assms, of 25] by (simp add: locate_def radii_def)
  have res: "resolve env q = Inr (not_found_observation 25)"
    by (simp add: resolve_def loc)
  have msg: "obs_message (not_found_observation 25) = Some ''No station found within 25 km''"
    by (simp add: not_found_observation_def digits_of_25)
  have st: "obs_station (not_found_observation 25) = None"
    by (simp add: not_found_observation_def)
  have pm: "obs_pm25 (not_found_observation 25) = None"
    by (simp add: not_found_observation_def)
  have fetched: "fetch_outcome env q = Inr (to_response env (not_found_observation 25))"
    by (simp add: fetch_outcome_def res)
  have panel: "stationPanel (card_of toFixed (to_response env (not_found_observation 25)) None)
      = NoStationFound (Some ''No station found within 25 km'')"
    by (simp add: card_of_def to_response_def st msg)
  have status: "statusPanel (card_of toFixed (to_response env (not_found_observation 25)) None)
      = None"
    by (simp add: card_of_def to_response_def json_number_def pm)
  have shown: "\<exists>c. card_shown toFixed (handleLocationSelect (fetch_outcome env q) la lo st) = Card c \<and>
      stationPanel c = NoStationFound (Some ''No station found within 25 km'') \<and>
      statusPanel c = None"
    using panel status by (simp add: fetched not_found_card)
  have other: "\<forall>env'. tier_candidates env' q 1 = None \<longrightarrow>
      fst (locate env' q) = UpstreamUnavailable \<and>
      resolve env' q = Inl UpstreamUnavailableFailure \<and>
      card_shown toFixed (handleLocationSelect (fetch_outcome env' q) la lo st)
        = ErrorPanel ''Failed to fetch air quality data''"
    by (simp add: locate_unavailable resolve_def fetch_outcome_def failed_fetch_card)
  from loc res msg st shown other show ?thesis by simp
qed

theorem C5_no_station_found_witness:
  "tier_candidates env_empty origin 1 = Some [] \<and>
   tier_candidates env_empty origin 5 = Some [] \<and>
   tier_candidates env_empty origin 10 = Some [] \<and>
   tier_candidates env_empty origin 25 = Some [] \<and>
   locate env_empty origin = (NotFound 25, [1, 5, 10, 25]) \<and>
   resolve env_empty origin = Inr (not_found_observation 25) \<and>
   tier_candidates env_down origin 1 = None \<and>
   resolve env_down origin = Inl UpstreamUnavailableFailure"
proof -
  have each: "tier_candidates env_empty origin r = Some []" for r
    by (simp add: tier_candidates_def env_empty_def world_def usable_def station_silent_def)
  then have none: "\<forall>r\<in>set radii. tier_candidates env_empty origin r = Some []"
    by simp
  have down: "tier_candidates env_down origin 1 = None"
    by (simp add: tier_candidates_def env_down_def world_def)
  from C5_no_station_found [OF none] each down show ?thesis by blast
qed

text \<open>
  Claim C8: the locator queries the tiers 1, 5, 10, 25 in this order and stops at the
  first tier with a candidate. The radii it has queried are always an initial part of
  the list of tiers; when the tiers before \<open>r\<close> are answered without a candidate and the
  tier \<open>r\<close> has one, it has queried exactly the tiers up to \<open>r\<close> and returns a candidate
  of that tier; when the tier of 1 km has a candidate, only that tier is queried.
\<close>

theorem C8_progressive_search:
  "radii = [1, 5, 10, 25] \<and>
   (\<exists>rest. radii = snd (locate env q) @ rest) \<and>
   (\<forall>pre r post c cs.
      radii = pre @ r # post \<and> (\<forall>r'\<in>set pre. tier_candidates env q r' = Some []) \<and>
      tier_candidates env q r = Some (c # cs) \<longrightarrow>
      snd (locate env q) = pre @ [r] \<and>
      (\<exists>s. fst (locate env q) = Found s (distance env q (location s)) \<and> s \<in> set (c # cs) \<and>
           usable env q r s)) \<and>
   (\<forall>c cs. tier_candidates env q 1 = Some (c # cs) \<longrightarrow> snd (locate env q) = [1])"
proof -
  have order: "radii = [1, 5, 10, 25]"
    by (simp add: radii_def)
  have initial: "\<exists>rest. radii = snd (locate env q) @ rest"
    unfolding locate_def by (rule search_tiers_log_prefix)
  have stops: "snd (locate env q) = pre @ [r] \<and>
      (\<exists>s. fst (locate env q) = Found s (distance env q (location s)) \<and> s \<in> set (c # cs) \<and>
           usable env q r s)"
    if tiers: "radii = pre @ r # post"
      and empty: "\<forall>r'\<in>set pre. tier_candidates env q r' = Some []"
      and hit: "tier_candidates env q r = Some (c # cs)"
    for pre r post c cs
  proof -
    from search_tiers_stops [OF empty hit, of "last radii" post]
    obtain s where "snd (locate env q) = pre @ [r]"
      and "fst (locate env q) = Found s (distance env q (location s))"
      and "s \<in> set (c # cs)"
      by (auto simp: locate_def tiers [symmetric])
    with candidate_usable [OF hit] show ?thesis by blast
  qed
  have first: "snd (locate env q) = [1]" if "tier_candidates env q 1 = Some (c # cs)" for c cs
    using stops [of "[]" 1 "[5, 10, 25]" c cs] that by (simp add: radii_def)
  from order initial stops first show ?thesis by blast
qed

theorem C8_progressive_search_witness:
  "snd (locate env_near origin) = [1] \<and> snd (locate env_far origin) = [1, 5, 10, 25] \<and>
   (\<exists>d. fst (locate env_far origin) = Found station_far d)"
proof -
  have near: "tier_candidates env_near origin 1 = Some [station_near]"
    by (simp add: tier_candidates_def env_near_def world_def usable_def meridian_km_def
        origin_def station_silent_def station_near_def station_far_def)
  have far_empty: "\<forall>r'\<in>set [1, 5, 10]. tier_candidates env_far origin r' = Some []"
    by (simp add: tier_candidates_def env_far_def world_def usable_def meridian_km_def
        origin_def station_silent_def station_far_def)
  have far_hit: "tier_candidates env_far origin 25 = Some [station_far]"
    by (simp add: tier_candidates_def env_far_def world_def usable_def meridian_km_def
        origin_def station_silent_def station_far_def)
  have tiers: "radii = [1, 5, 10] @ 25 # []"
    by (simp add: radii_def)
  from C8_progressive_search [of env_near origin] near
  have one: "snd (locate env_near origin) = [1]" by blast
  from C8_progressive_search [of env_far origin] tiers far_empty far_hit
  have "snd (locate env_far origin) = [1, 5, 10] @ [25] \<and>
      (\<exists>s. fst (locate env_far origin) = Found s (distance env_far origin (location s)) \<and>
           s \<in> set [station_far] \<and> usable env_far origin 25 s)"
    by blast
  with one show ?thesis by auto
qed

subsection \<open>The weather enricher\<close>

lemma found_has_reading:
  assumes "fst (locate env q) = Found s d"
  shows "reading_pm25 s \<noteq> None"
proof -
  from search_tiers_found [OF assms [unfolded locate_def]]
  obtain r cs where "tier_candidates env q r = Some cs" and "s \<in> set cs"
    by blast
  then have "usable env q r s" by (rule candidate_usable)
  then show ?thesis by (simp add: usable_def)
qed

lemma warning_is_shown: "weather_warning \<noteq> []"
  by (simp add: weather_warning_def)

text \<open>
  Claim C6: when the locator found a station and the weather provider fails for it, the
  request still succeeds. Its observation carries the station and the station's
  pollutant readings, of which PM2.5 is present, has no temperature, humidity, wind or
  weather time, and carries the warning marker; the data card built from the answer
  shows the status panel of the PM2.5 reading, "N/A" in the three weather cells and the
  warning line.
\<close>

theorem C6_weather_failure_degrades:
  assumes found: "fst (locate env q) = Found s d"
    and failed: "weather_provider env (location s) = None"
  shows "\<exists>obs. resolve env q = Inr obs \<and>
           obs_station obs = Some s \<and> obs_distance obs = Some d \<and>
           obs_pm25 obs = reading_pm25 s \<and> reading_pm25 s \<noteq> None \<and>
           obs_pm10 obs = reading_pm10 s \<and>
           obs_temperature obs = None \<and> obs_humidity obs = None \<and> obs_wind obs = None \<and>
           obs_weather_time obs = None \<and> obs_warning obs = Some weather_warning \<and>
           (\<exists>c. card_shown toFixed (handleLocationSelect (fetch_outcome env q) la lo st) = Card c \<and>
                map_option fst (statusPanel c) = Some (getAirQualityCategory (pm25 (to_response env obs))) \<and>
                temperatureCell c = ''N/A'' \<and> humidityCell c = ''N/A'' \<and> windCell c = ''N/A'' \<and>
                warningLine c = Some weather_warning)"
proof -
  define obs where "obs = (station_observation s d)\<lparr>obs_warning := Some weather_warning\<rparr>"
  have res: "resolve env q = Inr obs"
    by (simp add: resolve_def found enrich_def failed obs_def)
  have reading: "reading_pm25 s \<noteq> None"
    using found by (rule found_has_reading)
  then obtain v where v: "reading_pm25 s = Some v" by blast
  have fields: "obs_station obs = Some s" "obs_distance obs = Some d"
      "obs_pm25 obs = reading_pm25 s" "obs_pm10 obs = reading_pm10 s"
      "obs_temperature obs = None" "obs_humidity obs = None" "obs_wind obs = None"
      "obs_weather_time obs = None" "obs_warning obs = Some weather_warning"
    by (simp_all add: obs_def station_observation_def)
  have fetched: "fetch_outcome env q = Inr (to_response env obs)"
    by (simp add: fetch_outcome_def res)
  have shown: "card_shown toFixed (handleLocationSelect (fetch_outcome env q) la lo st)
      = Card (card_of toFixed (to_response env obs) None)"
    by (simp add: fetched card_shown_def handleLocationSelect_def DataCard_def)
  have pm: "pm25 (to_response env obs) = JNum (Fin v)"
    by (simp add: to_response_def json_number_def fields v)
  have status: "map_option fst (statusPanel (card_of toFixed (to_response env obs) None))
      = Some (getAirQualityCategory (pm25 (to_response env obs)))"
    by (simp add: card_of_def pm)
  have weather: "temperature_celsius (to_response env obs) = JNull"
      "relative_humidity (to_response env obs) = JNull"
      "wind_speed (to_response env obs) = JNull"
      "warning (to_response env obs) = Some weather_warning"
    by (simp_all add: to_response_def json_number_def fields)
  have cells: "temperatureCell (card_of toFixed (to_response env obs) None) = ''N/A''"
      "humidityCell (card_of toFixed (to_response env obs) None) = ''N/A''"
      "windCell (card_of toFixed (to_response env obs) None) = ''N/A''"
      "warningLine (card_of toFixed (to_response env obs) None) = Some weather_warning"
    by (simp_all add: card_of_def formatValue_def weather warning_is_shown)
  from res fields reading shown status cells show ?thesis by simp
qed

theorem C6_weather_failure_degrades_witness:
  "fst (locate env_far origin) = Found station_far 12 \<and>
   weather_provider env_far (location station_far) = None \<and>
   (\<exists>obs. resolve env_far origin = Inr obs \<and> obs_pm25 obs = Some 40 \<and>
      obs_temperature obs = None \<and> obs_warning obs = Some ''Weather data unavailable'')"
proof -
  have found: "fst (locate env_far origin) = Found station_far 12"
    by (simp add: locate_def radii_def tier_candidates_def env_far_def world_def usable_def
        meridian_km_def origin_def station_silent_def station_far_def)
  have failed: "weather_provider env_far (location station_far) = None"
    by (simp add: env_far_def world_def)
  have reading: "reading_pm25 station_far = Some 40"
    by (simp add: station_far_def)
  from C6_weather_failure_degrades
      [where toFixed = "\<lambda>x n. []" and la = "Fin 0" and lo = "Fin 0" and st = initial_state,
        OF found failed]
    found failed reading
  show ?thesis
    by (auto simp: weather_warning_def)
qed

subsection \<open>The forecast dispatcher\<close>

lemma all_horizon_ids: "(\<forall>h. P h) = (P H1 \<and> P H6 \<and> P H12 \<and> P H24)"
  by (metis horizon_id.exhaust)

lemma some_horizon_id: "(\<exists>h. P h) = (P H1 \<or> P H6 \<or> P H12 \<or> P H24)"
  by (metis horizon_id.exhaust)

lemma entry_is_value: "is_value (predict_horizon store fv h) = (store h \<noteq> None)"
  by (cases "store h") (simp_all add: predict_horizon_def)

lemma overall_of_four:
  "overall (dispatch store fv t all_horizons) =
     (if store H1 \<noteq> None \<and> store H6 \<noteq> None \<and> store H12 \<noteq> None \<and> store H24 \<noteq> None
      then ''success''
      else if store H1 \<noteq> None \<or> store H6 \<noteq> None \<or> store H12 \<noteq> None \<or> store H24 \<noteq> None
      then ''partial'' else ''failed'')"
  by (simp add: dispatch_def all_horizons_def overall_status_def entry_is_value)

text \<open>
  Claim C7: for a request over the four horizons the PredictionSet has one entry for each
  horizon, in their order, and the entry of a horizon is decided by the model of that
  horizon alone: the error marker exactly when the model is missing, the clamped value of
  the model otherwise. The overall status is "partial" exactly when some horizon has a
  value and some horizon has the marker, "failed" exactly when all four have the marker
  and "success" exactly when none has.
\<close>

theorem C7_prediction_status:
  "map fst (entries (dispatch store fv t all_horizons)) = [H1, H6, H12, H24] \<and>
   (\<forall>h. map_of (entries (dispatch store fv t all_horizons)) h
          = Some (predict_horizon store fv h)) \<and>
   (\<forall>h. (predict_horizon store fv h = HorizonError) = (store h = None)) \<and>
   (\<forall>h m. store h = Some m \<longrightarrow> predict_horizon store fv h = Predicted (max 0 (m fv))) \<and>
   (overall (dispatch store fv t all_horizons) = ''partial'')
      = ((\<exists>h. store h \<noteq> None) \<and> (\<exists>h. store h = None)) \<and>
   (overall (dispatch store fv t all_horizons) = ''failed'') = (\<forall>h. store h = None) \<and>
   (overall (dispatch store fv t all_horizons) = ''success'') = (\<forall>h. store h \<noteq> None)"
proof -
  have keys: "map fst (entries (dispatch store fv t all_horizons)) = [H1, H6, H12, H24]"
    by (simp add: dispatch_def all_horizons_def)
  have own: "\<forall>h. map_of (entries (dispatch store fv t all_horizons)) h
      = Some (predict_horizon store fv h)"
    by (simp add: all_horizon_ids dispatch_def all_horizons_def)
  have marker: "\<forall>h. (predict_horizon store fv h = HorizonError) = (store h = None)"
    by (simp add: predict_horizon_def split: option.splits)
  have val: "\<forall>h m. store h = Some m \<longrightarrow> predict_horizon store fv h = Predicted (max 0 (m fv))"
    by (simp add: predict_horizon_def)
  have partial: "(overall (dispatch store fv t all_horizons) = ''partial'')
      = ((\<exists>h. store h \<noteq> None) \<and> (\<exists>h. store h = None))"
    unfolding overall_of_four all_horizon_ids some_horizon_id by auto
  have failed: "(overall (dispatch store fv t all_horizons) = ''failed'') = (\<forall>h. store h = None)"
    unfolding overall_of_four all_horizon_ids by auto
  have success: "(overall (dispatch store fv t all_horizons) = ''success'')
      = (\<forall>h. store h \<noteq> None)"
    unfolding overall_of_four all_horizon_ids by auto
  from keys own marker val partial failed success show ?thesis by blast
qed

theorem C7_prediction_status_witness:
  "overall (dispatch store_without_6h [1, 2] None all_horizons) = ''partial'' \<and>
   overall (dispatch (\<lambda>h. None) [1, 2] None all_horizons) = ''failed'' \<and>
   map_of (entries (dispatch store_without_6h [1, 2] None all_horizons)) H6 = Some HorizonError \<and>
   map_of (entries (dispatch store_without_6h [1, 2] None all_horizons)) H12 = Some (Predicted 3)"
proof -
  have present: "store_without_6h H12 = Some sum_list" "store_without_6h H6 = None"
    by (simp_all add: store_without_6h_def)
  then have mixed: "(\<exists>h. store_without_6h h \<noteq> None) \<and> (\<exists>h. store_without_6h h = None)"
    by (metis option.distinct(1))
  have marker: "predict_horizon store_without_6h [1, 2] H6 = HorizonError"
    using C7_prediction_status [of store_without_6h "[1, 2]" None] present by blast
  have val: "predict_horizon store_without_6h [1, 2] H12 = Predicted 3"
    using C7_prediction_status [of store_without_6h "[1, 2]" None] present by fastforce
  from C7_prediction_status [of store_without_6h "[1, 2]" None] mixed marker val
    C7_prediction_status [of "\<lambda>h. None" "[1, 2]" None]
  show ?thesis by simp
qed

section \<open>The classifier on the two rendering paths\<close>

lemma card_uses_classifier:
  "map_option fst (statusPanel (card_of toFixed d preds)) =
     (if pm25 d = JNull \<or> pm25 d = JUndefined then None
      else Some (getAirQualityCategory (pm25 d)))"
  "predictionTiles (card_of toFixed d (Some p)) =
     (if status p = ''success''
      then Some (map (\<lambda>(h, v). \<lparr>horizon = h, shown_value = v, badge = getAirQualityCategory v\<rparr>)
                  (predictions p))
      else None)"
  by (simp_all add: card_of_def)

lemma marker_follows_classifier:
  assumes "truthy (pm25 d)"
  shows "getMarkerIcon (Some d) =
     createCustomIcon
       (let l = category (getAirQualityCategory (pm25 d)) in
        if l = ''Good'' then ''#10b981'' else if l = ''Moderate'' then ''#f59e0b''
        else if l = ''Unhealthy for Sensitive'' then ''#f97316''
        else if l = ''Unhealthy'' then ''#ef4444'' else ''#8b5cf6'')"
proof (cases "pm25 d")
  case (JNum n)
  with assms show ?thesis
    by (cases n) (simp_all add: getMarkerIcon_def getAirQualityCategory_def js_lte_def)
qed (use assms in simp_all)

text \<open>
  Claim C2, at the reading 0: the classifier gives 0 the band of 10, Good, and the data
  card shows that band for a live reading and for a predicted value alike; the marker of
  the map shows for 0 the gray icon of an absent answer, and the green icon for 10.
\<close>

theorem C2_marker_departs_at_zero:
  "getAirQualityCategory (JNum (Fin 0)) = getAirQualityCategory (JNum (Fin 10)) \<and>
   category (getAirQualityCategory (JNum (Fin 0))) = ''Good'' \<and>
   map_option fst (statusPanel (card_of toFixed (example_response\<lparr>pm25 := JNum (Fin 0)\<rparr>) None))
     = Some (getAirQualityCategory (JNum (Fin 0))) \<and>
   map_option (map badge)
     (predictionTiles (card_of toFixed example_response
        (Some \<lparr>status = ''success'', predictions = [(''1h'', JNum (Fin 0))],
               input_timestamp = None\<rparr>)))
     = Some [getAirQualityCategory (JNum (Fin 0))] \<and>
   getMarkerIcon (Some (example_response\<lparr>pm25 := JNum (Fin 10)\<rparr>)) = createCustomIcon ''#10b981'' \<and>
   getMarkerIcon (Some (example_response\<lparr>pm25 := JNum (Fin 0)\<rparr>)) = createCustomIcon ''#6b7280'' \<and>
   getMarkerIcon (Some (example_response\<lparr>pm25 := JNum (Fin 0)\<rparr>)) = getMarkerIcon None \<and>
   getMarkerIcon (Some (example_response\<lparr>pm25 := JNum (Fin 0)\<rparr>))
     \<noteq> getMarkerIcon (Some (example_response\<lparr>pm25 := JNum (Fin 10)\<rparr>))"
  by (simp add: getMarkerIcon_def createCustomIcon_def getAirQualityCategory_def js_lte_def
      card_of_def)

end
